theory Spec2Isabelle
  imports Main "HOL-Library.Word"
begin

section \<open>The shared state store (internal/state/state.go)\<close>

text \<open>
  The package keeps one map \<^verbatim>\<open>data map[string]any\<close>. A value of type \<^verbatim>\<open>any\<close> carries
  its dynamic type; the program stores values of six concrete types, which are the
  constructors of \<open>any\<close>. A \<^verbatim>\<open>windows.Handle\<close> and a \<^verbatim>\<open>*systray.MenuItem\<close> are machine
  addresses, modelled as natural numbers with 0 for the zero handle and the nil pointer.
  The event hook returned by \<^verbatim>\<open>winapi.SetWinEventHook\<close> is taken to be a
  \<^verbatim>\<open>windows.Handle\<close>, the type under which the program reads it back.
\<close>

type_synonym handle = nat

datatype any =
    U64 "64 word"
  | U32 "32 word"
  | Handle handle
  | Bool bool
  | MenuItem nat
  | Str string

datatype ty = TUint64 | TUint32 | THandle | TBool | TMenuItem | TString

fun type_of :: "any \<Rightarrow> ty" where
  "type_of (U64 _) = TUint64"
| "type_of (U32 _) = TUint32"
| "type_of (Handle _) = THandle"
| "type_of (Bool _) = TBool"
| "type_of (MenuItem _) = TMenuItem"
| "type_of (Str _) = TString"

text \<open>The zero value \<^verbatim>\<open>var zero T\<close> of each type.\<close>

fun zero :: "ty \<Rightarrow> any" where
  "zero TUint64 = U64 0"
| "zero TUint32 = U32 0"
| "zero THandle = Handle 0"
| "zero TBool = Bool False"
| "zero TMenuItem = MenuItem 0"
| "zero TString = Str []"

type_synonym store = "string \<rightharpoonup> any"

text \<open>
  \<^verbatim>\<open>Get[T](key)\<close>: a missing key gives the zero value and false; otherwise the type
  assertion \<^verbatim>\<open>v.(T)\<close> decides, and a failed assertion leaves the zero value of T.
  The type argument is the first parameter.
\<close>

definition Get :: "ty \<Rightarrow> string \<Rightarrow> store \<Rightarrow> any \<times> bool" where
  "Get T key data =
     (case data key of
        None \<Rightarrow> (zero T, False)
      | Some v \<Rightarrow> (if type_of v = T then (v, True) else (zero T, False)))"

definition Set :: "string \<Rightarrow> any \<Rightarrow> store \<Rightarrow> store" where
  "Set key v data = data(key \<mapsto> v)"

definition Delete :: "string \<Rightarrow> store \<Rightarrow> store" where
  "Delete key data = data(key := None)"

definition Clear :: "store \<Rightarrow> store" where
  "Clear data = Map.empty"

section \<open>The process and its environment\<close>

text \<open>
  The backing registry key \<^verbatim>\<open>Software\Microsoft\Windows\CurrentVersion\Explorer\Advanced\<close>
  of the current user, as far as the program uses it: whether it can be opened with
  \<^verbatim>\<open>SET_VALUE|QUERY_VALUE\<close>, the entry named \<^verbatim>\<open>Hidden\<close> (absent, or a value with its
  registry type), and whether a value can be written.
\<close>

datatype regvalue = DWORD "32 word" | QWORD "64 word" | REG_SZ string

record regkey =
  openable :: bool
  Hidden :: "regvalue option"
  writable :: bool

text \<open>
  Errors are values. Each constructor stands for one message the program builds with
  \<^verbatim>\<open>fmt.Errorf\<close>, \<^verbatim>\<open>fmt.Sprintf\<close> or a log call; a constructor with an argument wraps the
  error it reports.
\<close>

type_synonym hwnd = nat

datatype error =
    failed_call_to_OpenKey
  | failed_call_to_GetIntegerValue
  | Could_not_set_registry_key_value
  | failed_call_to_RegOpenKeyEx
  | failed_call_to_CreateEvent
  | failed_call_to_RegNotifyChangeKeyValue
  | failed_call_to_WaitForSingleObject error
  | failed_call_to_SetWinEventHook
  | failed_call_to_GetMessage
  | Could_not_enumerate_all_available_windows
  | Could_not_post_refresh_message hwnd
  | Could_not_post_WM_QUIT "32 word"
  | Could_not_get_state string
  | hotkey_Register_failed
  | Error_registering_global_hotkey error
  | Error_fetching_value_of_Hidden_during_startup error

datatype level = WarnLevel | ErrorLevel | FatalLevel

datatype icon = icoVisible | icoHidden

text \<open>
  A \<^verbatim>\<open>go\<close> statement adds a goroutine to the process; its body is a function of its own
  below, run when a schedule picks it.
\<close>

datatype goroutine =
    HotkeyListener
  | RegistryWatcher
  | MessageLoopWatcher
  | DelayedRefresh hwnd
  | MsgBox string error int

text \<open>
  The state of the process: the registry key it reads and writes, the registry handles it
  holds open, the package-level map of internal/state, the output of the logger, the
  errors sent on \<^verbatim>\<open>App.ErrCh\<close>, the WinEvent hooks installed, the windows a refresh
  command was posted to, the threads a \<^verbatim>\<open>WM_QUIT\<close> was posted to, the goroutines started
  and not yet run, the tray (title of the toggle item, icon, tooltip), and the exit code
  once \<^verbatim>\<open>os.Exit\<close> has been called.

  Of the logger's output the entries at the levels Warn, Error and Fatal are kept; the
  logger runs at a level that writes them, as its default \<^verbatim>\<open>INFO\<close> does. A send on
  \<^verbatim>\<open>App.ErrCh\<close> completes: the \<^verbatim>\<open>select\<close> loop of \<^verbatim>\<open>onReady\<close> receives from the channel
  for as long as the process runs.
\<close>

record sys =
  reg :: regkey
  open_keys :: "handle list"
  data :: store
  log :: "(level \<times> error) list"
  errCh :: "error list"
  hooks :: "handle list"
  refreshed :: "hwnd list"
  quits :: "32 word list"
  goroutines :: "goroutine list"
  tray :: "(string \<times> icon \<times> string) option"
  exited :: "int option"

definition statusVisible :: "64 word" where
  "statusVisible = 1"

definition statusHidden :: "64 word" where
  "statusHidden = 2"

subsection \<open>The registry calls\<close>

text \<open>
  \<^verbatim>\<open>registry.OpenKey\<close> returns a handle that is not zero and not open yet.
  \<^verbatim>\<open>GetIntegerValue\<close> succeeds on a \<^verbatim>\<open>DWORD\<close> or \<^verbatim>\<open>QWORD\<close> entry and fails on a missing
  entry or one of another type. \<^verbatim>\<open>SetDWordValue\<close> replaces the entry by a \<^verbatim>\<open>DWORD\<close>.
  \<^verbatim>\<open>Close\<close> releases the handle; on a handle that is not open, such as the zero
  handle, it fails and changes nothing, and no caller looks at its error. \<open>None\<close> is
  the call's error.
\<close>

definition fresh :: "handle list \<Rightarrow> handle" where
  "fresh hs = Suc (fold max hs 0)"

definition OpenKey :: "sys \<Rightarrow> handle option \<times> sys" where
  "OpenKey s =
     (if openable (reg s)
      then (let key = fresh (open_keys s) in (Some key, s\<lparr>open_keys := open_keys s @ [key]\<rparr>))
      else (None, s))"

fun integer_value :: "regvalue option \<Rightarrow> 64 word option" where
  "integer_value (Some (DWORD d)) = Some (ucast d)"
| "integer_value (Some (QWORD q)) = Some q"
| "integer_value _ = None"

definition GetIntegerValue :: "handle \<Rightarrow> sys \<Rightarrow> 64 word option" where
  "GetIntegerValue key s =
     (if key \<in> set (open_keys s) then integer_value (Hidden (reg s)) else None)"

definition SetDWordValue :: "handle \<Rightarrow> 32 word \<Rightarrow> sys \<Rightarrow> sys option" where
  "SetDWordValue key v s =
     (if key \<in> set (open_keys s) \<and> writable (reg s)
      then Some (s\<lparr>reg := (reg s)\<lparr>Hidden := Some (DWORD v)\<rparr>\<rparr>)
      else None)"

definition Close :: "handle \<Rightarrow> sys \<Rightarrow> sys" where
  "Close key s = s\<lparr>open_keys := removeAll key (open_keys s)\<rparr>"

subsection \<open>GetKeyValuePair and ToggleHidden (internal/app/lib.go)\<close>

text \<open>
  \<^verbatim>\<open>GetKeyValuePair(closeKey)\<close> returns the triple (key, value, err), and the three
  results are named. Both error returns are \<^verbatim>\<open>return 0, 0, err\<close>. The deferred
  \<^verbatim>\<open>key.Close()\<close> is registered only when \<open>closeKey\<close> holds, and then runs on both
  returns that follow it. It closes the named result \<open>key\<close> as the return statement has
  set it: the opened handle on the last return, and the zero handle on the error return
  of the read, where the opened handle stays open.
\<close>

definition GetKeyValuePair :: "bool \<Rightarrow> sys \<Rightarrow> (handle \<times> 64 word \<times> error option) \<times> sys" where
  "GetKeyValuePair closeKey s =
     (case OpenKey s of
        (None, s1) \<Rightarrow> ((0, 0, Some failed_call_to_OpenKey), s1)
      | (Some key, s1) \<Rightarrow>
          (case GetIntegerValue key s1 of
             None \<Rightarrow>
               ((0, 0, Some failed_call_to_GetIntegerValue),
                if closeKey then Close 0 s1 else s1)
           | Some v \<Rightarrow>
               ((key, v, None), if closeKey then Close key s1 else s1)))"

text \<open>
  \<^verbatim>\<open>ToggleHidden\<close> returns nothing; an error is logged and ends the call. The deferred
  \<^verbatim>\<open>key.Close()\<close> is registered after the error check of the read, so it runs on the two
  returns after it.
\<close>

definition ToggleHidden :: "sys \<Rightarrow> sys" where
  "ToggleHidden s =
     (case GetKeyValuePair False s of
        ((key, v, Some err), s1) \<Rightarrow> s1\<lparr>log := log s1 @ [(ErrorLevel, err)]\<rparr>
      | ((key, v, None), s1) \<Rightarrow>
          (let newValue = (if v = statusHidden then statusVisible else statusHidden) in
           case SetDWordValue key (ucast newValue) s1 of
             None \<Rightarrow>
               Close key (s1\<lparr>log := log s1 @ [(ErrorLevel, Could_not_set_registry_key_value)]\<rparr>)
           | Some s2 \<Rightarrow>
               Close key (s2\<lparr>data := Set ''status_hidden'' (U64 newValue) (data s2)\<rparr>)))"

subsection \<open>The window system and the file-browser identity test\<close>

text \<open>
  What the operating system and the Go library answer during one call: the per-window
  queries (\<open>None\<close> is an error), whether a post succeeds, the windows \<^verbatim>\<open>EnumWindows\<close>
  passes to its callback and whether it then reports an error, the environment variable
  \<^verbatim>\<open>SystemRoot\<close>, and the library functions \<^verbatim>\<open>strings.EqualFold\<close>, \<^verbatim>\<open>filepath.Clean\<close> and
  \<^verbatim>\<open>filepath.Join\<close>, which are parameters here.
\<close>

record winsys =
  GetClassName :: "hwnd \<Rightarrow> string option"
  GetWindowThreadProcessId :: "hwnd \<Rightarrow> 32 word option"
  OpenProcess :: "32 word \<Rightarrow> handle option"
  QueryFullProcessImageName :: "handle \<Rightarrow> string option"
  PostMessage_ok :: "hwnd \<Rightarrow> bool"
  PostThreadMessage_ok :: "32 word \<Rightarrow> bool"
  windows :: "hwnd list"
  EnumWindows_ok :: bool
  SystemRoot :: string
  EqualFold :: "string \<Rightarrow> string \<Rightarrow> bool"
  Clean :: "string \<Rightarrow> string"
  Join :: "string \<Rightarrow> string \<Rightarrow> string"

text \<open>
  \<^verbatim>\<open>IsFileExplorer\<close>: every failed query and every failed comparison is its own
  \<^verbatim>\<open>return false\<close>. The debug log lines and the closing of the process handle have no
  part in the result and are left out.
\<close>

definition IsFileExplorer :: "winsys \<Rightarrow> hwnd \<Rightarrow> bool" where
  "IsFileExplorer w hwnd =
     (case GetClassName w hwnd of
        None \<Rightarrow> False
      | Some className \<Rightarrow>
          if \<not> EqualFold w className ''CabinetWClass'' then False
          else (case GetWindowThreadProcessId w hwnd of
                  None \<Rightarrow> False
                | Some pid \<Rightarrow>
                    (case OpenProcess w pid of
                       None \<Rightarrow> False
                     | Some h \<Rightarrow>
                         (case QueryFullProcessImageName w h of
                            None \<Rightarrow> False
                          | Some exeNameW \<Rightarrow>
                              (let exeName = Clean w exeNameW;
                                   procName = Join w (SystemRoot w) ''explorer.exe''
                               in if EqualFold w exeName procName then True else False)))))"

definition PostRefreshMessage :: "winsys \<Rightarrow> hwnd \<Rightarrow> sys \<Rightarrow> sys" where
  "PostRefreshMessage w hwnd s =
     (if PostMessage_ok w hwnd
      then s\<lparr>refreshed := refreshed s @ [hwnd]\<rparr>
      else s\<lparr>log := log s @ [(WarnLevel, Could_not_post_refresh_message hwnd)]\<rparr>)"

text \<open>
  \<^verbatim>\<open>enumWindowsProc\<close> returns the value that tells \<^verbatim>\<open>EnumWindows\<close> whether to go on,
  the flag behind \<^verbatim>\<open>lParam\<close>, and the state.
\<close>

definition enumWindowsProc :: "winsys \<Rightarrow> hwnd \<Rightarrow> 32 word \<times> sys \<Rightarrow> nat \<times> 32 word \<times> sys" where
  "enumWindowsProc w hwnd fs =
     (case fs of (found, s) \<Rightarrow>
        if IsFileExplorer w hwnd
        then (1, (if found = 0 then 1 else found), PostRefreshMessage w hwnd s)
        else (1, found, s))"

text \<open>\<^verbatim>\<open>EnumWindows\<close> calls the callback on each window until one call returns zero.\<close>

fun EnumWindows :: "winsys \<Rightarrow> hwnd list \<Rightarrow> 32 word \<times> sys \<Rightarrow> 32 word \<times> sys" where
  "EnumWindows w [] fs = fs"
| "EnumWindows w (hwnd # rest) fs =
     (case enumWindowsProc w hwnd fs of
        (r, found, s) \<Rightarrow> if r = 0 then (found, s) else EnumWindows w rest (found, s))"

text \<open>\<^verbatim>\<open>WatchMessageLoop\<close> starts a goroutine and returns.\<close>

definition WatchMessageLoop :: "sys \<Rightarrow> sys" where
  "WatchMessageLoop s = s\<lparr>goroutines := goroutines s @ [MessageLoopWatcher]\<rparr>"

text \<open>
  \<^verbatim>\<open>RefreshExplorerWindows\<close> runs under the mutex \<^verbatim>\<open>l.mu\<close>: no two calls overlap, which
  a function from state to state expresses.
\<close>

definition RefreshExplorerWindows :: "winsys \<Rightarrow> sys \<Rightarrow> sys" where
  "RefreshExplorerWindows w s =
     (case EnumWindows w (windows w) (0, s) of
        (found, s1) \<Rightarrow>
          if \<not> EnumWindows_ok w
          then s1\<lparr>log := log s1 @ [(WarnLevel, Could_not_enumerate_all_available_windows)]\<rparr>
          else if found = 0
          then (case Get THandle ''hook_winEvent'' (data s1) of
                  (Handle hook, ok) \<Rightarrow> if ok \<and> hook \<noteq> 0 then s1 else WatchMessageLoop s1
                | _ \<Rightarrow> WatchMessageLoop s1)
          else s1)"

definition RefreshSystray :: "string \<Rightarrow> sys \<Rightarrow> sys" where
  "RefreshSystray name s =
     (case Get TMenuItem ''menu_toggle'' (data s) of
        (toggle, False) \<Rightarrow>
          s\<lparr>log := log s @ [(ErrorLevel, Could_not_get_state ''menu_toggle'')]\<rparr>
      | (toggle, True) \<Rightarrow>
          (case Get TUint64 ''status_hidden'' (data s) of
             (hidden, False) \<Rightarrow>
               s\<lparr>log := log s @ [(ErrorLevel, Could_not_get_state ''status_hidden'')]\<rparr>
           | (hidden, True) \<Rightarrow>
               if hidden = U64 statusHidden
               then s\<lparr>tray := Some (''Show'', icoHidden, name @ '' - Disabled'')\<rparr>
               else s\<lparr>tray := Some (''Hide'', icoVisible, name @ '' - Enabled'')\<rparr>))"

subsection \<open>The window focus event watcher\<close>

text \<open>
  The goroutine of \<^verbatim>\<open>WatchMessageLoop\<close> in two parts. The first runs up to the message
  loop: it takes the result of \<^verbatim>\<open>SetWinEventHook\<close> (\<open>None\<close> is the error) and the id of
  the thread it runs on. A hook that is installed is a handle other than zero.
\<close>

definition WatchMessageLoop_arm :: "handle option \<Rightarrow> 32 word \<Rightarrow> sys \<Rightarrow> handle option \<times> sys" where
  "WatchMessageLoop_arm SetWinEventHook tid s =
     (let s0 = s\<lparr>goroutines := remove1 MessageLoopWatcher (goroutines s)\<rparr> in
      case SetWinEventHook of
        None \<Rightarrow> (None, s0\<lparr>errCh := errCh s0 @ [failed_call_to_SetWinEventHook]\<rparr>)
      | Some hook \<Rightarrow>
          (Some hook,
           s0\<lparr>hooks := (if hook \<noteq> 0 then hooks s0 @ [hook] else hooks s0),
              data := Set ''threadId_winEvent'' (U32 tid)
                        (Set ''hook_winEvent'' (Handle hook) (data s0))\<rparr>))"

text \<open>
  \<^verbatim>\<open>winEventProc\<close> always returns 0; on a file-browser window it starts the goroutine
  that sleeps, posts the refresh and posts \<^verbatim>\<open>WM_QUIT\<close> to the recorded thread.
\<close>

definition winEventProc :: "winsys \<Rightarrow> hwnd \<Rightarrow> int \<Rightarrow> sys \<Rightarrow> sys" where
  "winEventProc w hwnd objectId s =
     (if objectId \<noteq> 0 then s
      else if IsFileExplorer w hwnd
      then s\<lparr>goroutines := goroutines s @ [DelayedRefresh hwnd]\<rparr>
      else s)"

definition winEventProc_go :: "winsys \<Rightarrow> hwnd \<Rightarrow> sys \<Rightarrow> sys" where
  "winEventProc_go w hwnd s =
     (let s1 = PostRefreshMessage w hwnd
                 (s\<lparr>goroutines := remove1 (DelayedRefresh hwnd) (goroutines s)\<rparr>) in
      case Get TUint32 ''threadId_winEvent'' (data s1) of
        (U32 tID, ok) \<Rightarrow>
          if ok \<and> tID \<noteq> 0
          then (if PostThreadMessage_ok w tID
                then s1\<lparr>quits := quits s1 @ [tID]\<rparr>
                else s1\<lparr>log := log s1 @ [(WarnLevel, Could_not_post_WM_QUIT tID)]\<rparr>)
          else s1
      | _ \<Rightarrow> s1)"

text \<open>
  One call of \<^verbatim>\<open>GetMessage\<close>: its result \<open>r1\<close>, whether it returned an error, and the
  foreground events (window and object id) the hook delivers to \<^verbatim>\<open>winEventProc\<close> on this
  thread when the message is dispatched, with the window system as it is then.
\<close>

datatype getmsg = GetMessage int bool "(hwnd \<times> int) list" winsys

datatype loop_state = Running | Exited

text \<open>The statements after the loop: unhook, then delete both entries.\<close>

definition WatchMessageLoop_exit :: "handle \<Rightarrow> sys \<Rightarrow> sys" where
  "WatchMessageLoop_exit hook s =
     (let s1 = (if hook \<noteq> 0 then s\<lparr>hooks := removeAll hook (hooks s)\<rparr> else s) in
      s1\<lparr>data := Delete ''threadId_winEvent'' (Delete ''hook_winEvent'' (data s1))\<rparr>)"

text \<open>
  The message loop runs on the calls of \<^verbatim>\<open>GetMessage\<close> it is given; when they are used
  up it is blocked in the next call and still \<open>Running\<close>.
\<close>

fun message_loop :: "getmsg list \<Rightarrow> handle \<Rightarrow> sys \<Rightarrow> loop_state \<times> sys" where
  "message_loop [] hook s = (Running, s)"
| "message_loop (GetMessage r1 err evs w # ms) hook s =
     (if r1 = 0 then (Exited, WatchMessageLoop_exit hook s)
      else if err
      then (Exited, WatchMessageLoop_exit hook (s\<lparr>errCh := errCh s @ [failed_call_to_GetMessage]\<rparr>))
      else message_loop ms hook (fold (\<lambda>(hwnd, objectId). winEventProc w hwnd objectId) evs s))"

definition WatchMessageLoop_go ::
    "handle option \<Rightarrow> 32 word \<Rightarrow> getmsg list \<Rightarrow> sys \<Rightarrow> loop_state \<times> sys" where
  "WatchMessageLoop_go SetWinEventHook tid ms s =
     (case WatchMessageLoop_arm SetWinEventHook tid s of
        (None, s1) \<Rightarrow> (Exited, s1)
      | (Some hook, s1) \<Rightarrow> message_loop ms hook s1)"

subsection \<open>The hotkey listener and the registry change watcher\<close>


text \<open>
  One turn of the loop of \<^verbatim>\<open>WatchRegistryKey\<close>: whether \<^verbatim>\<open>RegNotifyChangeKeyValue\<close>
  succeeded, the result of \<^verbatim>\<open>WaitForSingleObject\<close>, what the outside has done to the key
  when the wait returns, and the window system at that time.
\<close>

datatype wake = Wake bool "32 word" "regkey \<Rightarrow> regkey" winsys

definition WAIT_OBJECT_0 :: "32 word" where
  "WAIT_OBJECT_0 = 0"

fun registry_loop :: "string \<Rightarrow> wake list \<Rightarrow> sys \<Rightarrow> loop_state \<times> sys" where
  "registry_loop name [] s = (Running, s)"
| "registry_loop name (Wake notify_ok r1 outside w # ws) s =
     (if \<not> notify_ok
      then (Exited, s\<lparr>errCh := errCh s @ [failed_call_to_RegNotifyChangeKeyValue]\<rparr>)
      else if r1 = WAIT_OBJECT_0
      then (case GetKeyValuePair False (s\<lparr>reg := outside (reg s)\<rparr>) of
              ((key, v, Some err), s1) \<Rightarrow>
                (Exited, s1\<lparr>errCh := errCh s1 @ [failed_call_to_WaitForSingleObject err]\<rparr>)
            | ((key, v, None), s1) \<Rightarrow>
                registry_loop name ws
                  (RefreshExplorerWindows w
                     (RefreshSystray name
                        (s1\<lparr>data := Set ''status_hidden'' (U64 v) (data s1)\<rparr>))))
      else registry_loop name ws (s\<lparr>reg := outside (reg s)\<rparr>))"

definition WatchRegistryKey :: "sys \<Rightarrow> sys" where
  "WatchRegistryKey s = s\<lparr>goroutines := goroutines s @ [RegistryWatcher]\<rparr>"

text \<open>
  The goroutine of \<^verbatim>\<open>WatchRegistryKey\<close>, given whether \<^verbatim>\<open>RegOpenKeyEx\<close> and
  \<^verbatim>\<open>CreateEvent\<close> succeed. The notification handle and the event object it holds are
  closed when it returns and are not part of the state.
\<close>

definition WatchRegistryKey_go :: "string \<Rightarrow> bool \<Rightarrow> bool \<Rightarrow> wake list \<Rightarrow> sys \<Rightarrow> loop_state \<times> sys" where
  "WatchRegistryKey_go name RegOpenKeyEx_ok CreateEvent_ok ws s =
     (let s0 = s\<lparr>goroutines := remove1 RegistryWatcher (goroutines s)\<rparr> in
      if \<not> RegOpenKeyEx_ok
      then (Exited, s0\<lparr>errCh := errCh s0 @ [failed_call_to_RegOpenKeyEx]\<rparr>)
      else if \<not> CreateEvent_ok
      then (Exited, s0\<lparr>errCh := errCh s0 @ [failed_call_to_CreateEvent]\<rparr>)
      else registry_loop name ws s0)"

subsection \<open>Startup (internal/app/app.go)\<close>

text \<open>
  After \<^verbatim>\<open>os.Exit\<close> nothing runs: \<open>andThen f\<close> is the statement \<open>f\<close> in a process that
  may have exited. \<^verbatim>\<open>log.Fatal\<close> of logrus writes the entry and calls \<^verbatim>\<open>os.Exit(1)\<close>.
\<close>

definition andThen :: "(sys \<Rightarrow> sys) \<Rightarrow> sys \<Rightarrow> sys" where
  "andThen f s = (if exited s = None then f s else s)"

definition Fatal :: "error \<Rightarrow> sys \<Rightarrow> sys" where
  "Fatal msg s = s\<lparr>log := log s @ [(FatalLevel, msg)], exited := Some 1\<rparr>"

text \<open>
  \<^verbatim>\<open>strings.ToLower\<close> and \<^verbatim>\<open>strings.ReplaceAll(title, " ", "")\<close> on the titles the
  program uses, which are ASCII.
\<close>

definition ToLower :: "string \<Rightarrow> string" where
  "ToLower str =
     map (\<lambda>c. if 65 \<le> (of_char c :: nat) \<and> (of_char c :: nat) \<le> 90
              then char_of (of_char c + 32 :: nat) else c) str"

definition stateLabel :: "string \<Rightarrow> string" where
  "stateLabel title = ''msgbox_'' @ ToLower (filter (\<lambda>c. c \<noteq> CHR '' '') title)"

text \<open>
  \<^verbatim>\<open>msgbox\<close> returns at once when a box of that title is open; otherwise it marks the
  title and starts the goroutine that shows the box. \<open>msgbox_go\<close> is the rest of that
  goroutine, run when the user closes the box.
\<close>

definition msgbox :: "string \<Rightarrow> error \<Rightarrow> int \<Rightarrow> sys \<Rightarrow> sys" where
  "msgbox title text exitCode s =
     (case Get TBool (stateLabel title) (data s) of
        (Bool opn, ok) \<Rightarrow>
          if ok \<and> opn then s
          else s\<lparr>data := Set (stateLabel title) (Bool True) (data s),
                 goroutines := goroutines s @ [MsgBox title text exitCode]\<rparr>
      | _ \<Rightarrow> s\<lparr>data := Set (stateLabel title) (Bool True) (data s),
                goroutines := goroutines s @ [MsgBox title text exitCode]\<rparr>)"

definition msgbox_go :: "string \<Rightarrow> error \<Rightarrow> int \<Rightarrow> sys \<Rightarrow> sys" where
  "msgbox_go title text exitCode s =
     (let s1 = s\<lparr>goroutines := remove1 (MsgBox title text exitCode) (goroutines s),
                 data := Set (stateLabel title) (Bool False) (data s)\<rparr>
      in if exitCode \<ge> 0 then s1\<lparr>exited := Some exitCode\<rparr> else s1)"

text \<open>
  \<^verbatim>\<open>onReady\<close> up to its \<^verbatim>\<open>select\<close> loop, given the application name, the result of
  \<^verbatim>\<open>hk.Register()\<close> and the menu item \<^verbatim>\<open>systray.AddMenuItem\<close> returns.
\<close>

definition onReady :: "string \<Rightarrow> error option \<Rightarrow> nat \<Rightarrow> sys \<Rightarrow> sys" where
  "onReady name hk_Register mToggle s =
     (let s1 = (case hk_Register of
                  None \<Rightarrow> s
                | Some err \<Rightarrow>
                    andThen (msgbox ''Fatal Error'' (Error_registering_global_hotkey err) 1)
                      (Fatal (Error_registering_global_hotkey err) s));
          s2 = andThen (\<lambda>s. s\<lparr>goroutines := goroutines s @ [HotkeyListener]\<rparr>) s1;
          s3 = andThen (\<lambda>s.
                 case GetKeyValuePair True s of
                   ((key, v, None), s') \<Rightarrow>
                     s'\<lparr>data := Set ''status_hidden'' (U64 v) (data s')\<rparr>
                 | ((key, v, Some err), s') \<Rightarrow>
                     andThen (\<lambda>s. s\<lparr>data := Set ''status_hidden'' (U64 v) (data s)\<rparr>)
                       (andThen
                          (msgbox ''Fatal Error''
                             (Error_fetching_value_of_Hidden_during_startup err) 1)
                          (Fatal (Error_fetching_value_of_Hidden_during_startup err) s'))) s2;
          s4 = andThen (\<lambda>s. s\<lparr>data := Set ''menu_toggle'' (MenuItem mToggle) (data s)\<rparr>) s3;
          s5 = andThen (RefreshSystray name) s4
      in andThen WatchRegistryKey s5)"

text \<open>A process that has just started, on a given registry key.\<close>

definition boot :: "regkey \<Rightarrow> sys" where
  "boot r = \<lparr>reg = r, open_keys = [], data = Map.empty, log = [], errCh = [], hooks = [],
             refreshed = [], quits = [], goroutines = [], tray = None, exited = None\<rparr>"

subsection \<open>Example states\<close>

text \<open>
  The process after \<^verbatim>\<open>onReady\<close> on a registry key whose \<^verbatim>\<open>Hidden\<close> entry is the
  \<^verbatim>\<open>DWORD\<close> 0, a value outside the two statuses.
\<close>

definition started :: sys where
  "started = onReady ''ShowAllFiles'' None 1
     (boot \<lparr>openable = True, Hidden = Some (DWORD 0), writable = True\<rparr>)"

text \<open>
  A window system with four windows: 1 is a file-browser window whose class name and
  image path differ from the expected ones in letter case only, 2 belongs to another
  program, 3 has the class name of a file browser but no image path can be queried for
  its process, and 4 has been closed, so that no query on it succeeds. The library
  functions are given here for ASCII text and paths that are already clean.
\<close>

definition desktop :: winsys where
  "desktop =
     \<lparr>GetClassName = (\<lambda>h. if h = 1 then Some ''CABINETWCLASS''
                          else if h = 2 then Some ''Notepad''
                          else if h = 3 then Some ''CabinetWClass''
                          else None),
      GetWindowThreadProcessId = (\<lambda>h. if h = 1 then Some 100
                                      else if h = 3 then Some 300 else None),
      OpenProcess = (\<lambda>p. if p = 100 then Some 11 else if p = 300 then Some 13 else None),
      QueryFullProcessImageName =
        (\<lambda>h. if h = 11 then Some (''C:'' @ [CHR 0x5C] @ ''WINDOWS'' @ [CHR 0x5C] @ ''Explorer.EXE'')
             else None),
      PostMessage_ok = (\<lambda>h. True),
      PostThreadMessage_ok = (\<lambda>t. True),
      windows = [1, 2, 3, 4],
      EnumWindows_ok = True,
      SystemRoot = ''C:'' @ [CHR 0x5C] @ ''Windows'',
      EqualFold = (\<lambda>a b. ToLower a = ToLower b),
      Clean = (\<lambda>p. p),
      Join = (\<lambda>a b. a @ [CHR 0x5C] @ b)\<rparr>"

text \<open>The same window system with no window open.\<close>

definition no_windows :: winsys where
  "no_windows = desktop\<lparr>windows := []\<rparr>"

text \<open>What the outside does to the registry key between two events.\<close>

definition delete_Hidden :: "regkey \<Rightarrow> regkey" where
  "delete_Hidden r = r\<lparr>Hidden := None\<rparr>"

definition set_Visible :: "regkey \<Rightarrow> regkey" where
  "set_Visible r = r\<lparr>Hidden := Some (DWORD 1)\<rparr>"

definition unchanged :: "regkey \<Rightarrow> regkey" where
  "unchanged r = r"

text \<open>The started process after the \<^verbatim>\<open>Hidden\<close> entry has been deleted from outside.\<close>

definition value_deleted :: sys where
  "value_deleted = started\<lparr>reg := delete_Hidden (reg started)\<rparr>"

text \<open>
  The started process after one refresh that found no file-browser window and after the
  watcher goroutine it started has installed hook 101 on thread 7.
\<close>

definition armed :: sys where
  "armed = snd (WatchMessageLoop_arm (Some 101) 7 (RefreshExplorerWindows no_windows started))"

text \<open>
  The started process after the registry watcher has handled two change notifications
  with no file-browser window open, before any watcher goroutine it started has run.
\<close>

definition two_changes :: sys where
  "two_changes = snd (WatchRegistryKey_go ''ShowAllFiles'' True True
     [Wake True WAIT_OBJECT_0 set_Visible no_windows,
      Wake True WAIT_OBJECT_0 unchanged no_windows] started)"





section \<open>Theorems\<close>

text \<open>
  C5. For every key, value and requested type: \<open>Get\<close> after \<open>Set k v\<close> returns
  \<open>(v, True)\<close> when v has the requested type; \<open>Get\<close> after \<open>Delete k\<close>, on a key that
  was never set, and on a stored value of another type returns the zero value and
  \<open>False\<close>; after \<open>Clear\<close> every key is unset.
\<close>

theorem state_store_laws:
  "(type_of v = T \<longrightarrow> Get T k (Set k v d) = (v, True)) \<and>
   Get T k (Delete k d) = (zero T, False) \<and>
   (d k = None \<longrightarrow> Get T k d = (zero T, False)) \<and>
   (d k = Some w \<and> type_of w \<noteq> T \<longrightarrow> Get T k d = (zero T, False)) \<and>
   Clear d k = None \<and> Get T k (Clear d) = (zero T, False)"
  by (simp add: Get_def Set_def Delete_def Clear_def)

theorem state_store_laws_witness:
  "type_of (U64 2) = TUint64 \<and>
   Get TUint64 ''status_hidden'' (Set ''status_hidden'' (U64 2) Map.empty) = (U64 2, True) \<and>
   Get TUint64 ''status_hidden'' (Delete ''status_hidden'' [''status_hidden'' \<mapsto> Bool True])
     = (U64 0, False) \<and>
   [''status_hidden'' \<mapsto> Bool True] ''hook_winEvent'' = None \<and>
   Get THandle ''hook_winEvent'' [''status_hidden'' \<mapsto> Bool True] = (Handle 0, False) \<and>
   [''status_hidden'' \<mapsto> Bool True] ''status_hidden'' = Some (Bool True) \<and>
   type_of (Bool True) \<noteq> TUint64 \<and>
   Get TUint64 ''status_hidden'' [''status_hidden'' \<mapsto> Bool True] = (U64 0, False)"
  using state_store_laws [of "U64 2" TUint64 "''status_hidden''" Map.empty]
    state_store_laws [of "Bool True" TUint64 "''status_hidden''"
      "[''status_hidden'' \<mapsto> Bool True]" "Bool True"]
    state_store_laws [of "Bool True" THandle "''hook_winEvent''"
      "[''status_hidden'' \<mapsto> Bool True]" "Bool True"]
  by (simp add: Delete_def Set_def)

subsection \<open>The registry calls and the toggle\<close>

lemma fresh_notin: "fresh hs \<notin> set hs"
proof
  assume "fresh hs \<in> set hs"
  then have "fresh hs \<le> Max (set (0 # hs))"
    by (intro Max_ge) auto
  then show False
    by (simp only: fresh_def Max.set_eq_fold)
qed

lemma fresh_nonzero: "fresh hs \<noteq> 0"
  by (simp add: fresh_def)

lemma GetKeyValuePair_False:
  "GetKeyValuePair False s =
     (if \<not> openable (reg s) then ((0, 0, Some failed_call_to_OpenKey), s)
      else case integer_value (Hidden (reg s)) of
             None \<Rightarrow> ((0, 0, Some failed_call_to_GetIntegerValue),
                       s\<lparr>open_keys := open_keys s @ [fresh (open_keys s)]\<rparr>)
           | Some v \<Rightarrow> ((fresh (open_keys s), v, None),
                       s\<lparr>open_keys := open_keys s @ [fresh (open_keys s)]\<rparr>))"
  by (simp add: GetKeyValuePair_def OpenKey_def GetIntegerValue_def Let_def split: option.splits)

lemma ToggleHidden_eq:
  "ToggleHidden s =
     (if \<not> openable (reg s) then s\<lparr>log := log s @ [(ErrorLevel, failed_call_to_OpenKey)]\<rparr>
      else case integer_value (Hidden (reg s)) of
             None \<Rightarrow> s\<lparr>open_keys := open_keys s @ [fresh (open_keys s)],
                       log := log s @ [(ErrorLevel, failed_call_to_GetIntegerValue)]\<rparr>
           | Some v \<Rightarrow>
               if \<not> writable (reg s)
               then s\<lparr>log := log s @ [(ErrorLevel, Could_not_set_registry_key_value)]\<rparr>
               else s\<lparr>reg := (reg s)\<lparr>Hidden := Some (DWORD (if v = 2 then 1 else 2))\<rparr>,
                      data := (data s)(''status_hidden'' \<mapsto> U64 (if v = 2 then 1 else 2))\<rparr>)"
  using fresh_notin [of "open_keys s"]
  by (simp add: ToggleHidden_def GetKeyValuePair_False SetDWordValue_def Close_def Set_def
      statusHidden_def statusVisible_def Let_def split: option.splits)


lemma toggle_step:
  assumes "log (ToggleHidden s) = log s"
  shows "\<exists>v. integer_value (Hidden (reg s)) = Some v \<and>
           Hidden (reg (ToggleHidden s)) = Some (DWORD (if v = 2 then 1 else 2)) \<and>
           integer_value (Hidden (reg (ToggleHidden s))) = Some (if v = 2 then 1 else 2) \<and>
           data (ToggleHidden s) = (data s)(''status_hidden'' \<mapsto> U64 (if v = 2 then 1 else 2)) \<and>
           open_keys (ToggleHidden s) = open_keys s"
  using assms by (auto simp: ToggleHidden_eq split: if_splits option.splits)

lemma onReady_ok:
  "openable r \<Longrightarrow> integer_value (Hidden r) = Some v \<Longrightarrow>
   onReady name None m (boot r) =
     (boot r)\<lparr>data := [''status_hidden'' \<mapsto> U64 v, ''menu_toggle'' \<mapsto> MenuItem m],
              goroutines := [HotkeyListener, RegistryWatcher],
              tray := Some (if v = 2 then (''Show'', icoHidden, name @ '' - Disabled'')
                            else (''Hide'', icoVisible, name @ '' - Enabled''))\<rparr>"
  using fresh_notin [of "[]"]
  by (simp add: onReady_def boot_def andThen_def GetKeyValuePair_def OpenKey_def
      GetIntegerValue_def Close_def Set_def RefreshSystray_def Get_def WatchRegistryKey_def
      statusHidden_def Let_def fun_upd_twist)

lemma started_eq:
  "started = (boot \<lparr>openable = True, Hidden = Some (DWORD 0), writable = True\<rparr>)
     \<lparr>data := [''status_hidden'' \<mapsto> U64 0, ''menu_toggle'' \<mapsto> MenuItem 1],
      goroutines := [HotkeyListener, RegistryWatcher],
      tray := Some (''Hide'', icoVisible, ''ShowAllFiles - Enabled'')\<rparr>"
  unfolding started_def by (subst onReady_ok [where v = 0]) simp_all

lemma toggles_invariant:
  assumes "integer_value (Hidden (reg s)) = Some v"
      and "\<forall>k<n. log (ToggleHidden ((ToggleHidden ^^ k) s)) = log ((ToggleHidden ^^ k) s)"
      and "0 < k" and "k \<le> n"
  shows "integer_value (Hidden (reg ((ToggleHidden ^^ k) s)))
           = Some (if (v = statusHidden) = odd k then statusVisible else statusHidden) \<and>
         data ((ToggleHidden ^^ k) s) ''status_hidden''
           = Some (U64 (if (v = statusHidden) = odd k then statusVisible else statusHidden))"
  using assms(3,4)
proof (induction k)
  case 0
  then show ?case by simp
next
  case (Suc k)
  let ?s = "(ToggleHidden ^^ k) s"
  from Suc.prems assms(2) have ok: "log (ToggleHidden ?s) = log ?s" by simp
  have before: "integer_value (Hidden (reg ?s))
      = Some (if k = 0 then v else if (v = statusHidden) = odd k then statusVisible else statusHidden)"
  proof (cases "k = 0")
    case True
    then show ?thesis using assms(1) by simp
  next
    case False
    then show ?thesis using Suc.IH Suc.prems by simp
  qed
  from toggle_step [OF ok] before show ?case
    by (auto simp: statusHidden_def statusVisible_def)
qed

text \<open>
  C1, as amended. In every sequence of successful calls of \<open>ToggleHidden\<close> (calls that log
  no error) that starts from the status \<open>v\<close> read at initialization, the stored status
  after the k-th call, for k of at least 1, is \<open>Visible\<close> or \<open>Hidden\<close>: the opposite
  of \<open>v\<close> after an odd number of calls (\<open>Visible\<close> if \<open>v\<close> is \<open>Hidden\<close>, otherwise
  \<open>Hidden\<close>) and the other one after an even number, so the stored statuses alternate
  strictly. Two consecutive successful calls restore the status they started from
  whenever that status is \<open>Visible\<close> or \<open>Hidden\<close>, which every status after the first
  call is.
\<close>

theorem toggle_sequence_alternates:
  assumes "integer_value (Hidden (reg s)) = Some v"
      and "Get TUint64 ''status_hidden'' (data s) = (U64 v, True)"
      and "\<forall>k<n. log (ToggleHidden ((ToggleHidden ^^ k) s)) = log ((ToggleHidden ^^ k) s)"
  shows "(\<forall>k. 0 < k \<and> k \<le> n \<longrightarrow>
            Get TUint64 ''status_hidden'' (data ((ToggleHidden ^^ k) s))
              = (U64 (if (v = statusHidden) = odd k then statusVisible else statusHidden), True)) \<and>
         (\<forall>k. k + 2 \<le> n \<and> (k = 0 \<longrightarrow> v = statusVisible \<or> v = statusHidden) \<longrightarrow>
            Get TUint64 ''status_hidden'' (data ((ToggleHidden ^^ (k + 2)) s))
              = Get TUint64 ''status_hidden'' (data ((ToggleHidden ^^ k) s)))"
proof -
  have closed: "Get TUint64 ''status_hidden'' (data ((ToggleHidden ^^ k) s))
      = (U64 (if (v = statusHidden) = odd k then statusVisible else statusHidden), True)"
    if "0 < k" "k \<le> n" for k
    using toggles_invariant [OF assms(1) assms(3) that] by (simp add: Get_def)
  have restore: "Get TUint64 ''status_hidden'' (data ((ToggleHidden ^^ (k + 2)) s))
      = Get TUint64 ''status_hidden'' (data ((ToggleHidden ^^ k) s))"
    if "k + 2 \<le> n" "k = 0 \<longrightarrow> v = statusVisible \<or> v = statusHidden" for k
  proof (cases "k = 0")
    case True
    with that assms(2) closed [of 2] show ?thesis
      by (auto simp: statusHidden_def statusVisible_def numeral_2_eq_2)
  next
    case False
    with that closed [of k] closed [of "k + 2"] show ?thesis by simp
  qed
  from closed restore show ?thesis by blast
qed

theorem toggle_sequence_alternates_witness:
  "integer_value (Hidden (reg started)) = Some 0 \<and>
   Get TUint64 ''status_hidden'' (data started) = (U64 0, True) \<and>
   log (ToggleHidden ((ToggleHidden ^^ 0) started)) = log ((ToggleHidden ^^ 0) started) \<and>
   log (ToggleHidden ((ToggleHidden ^^ 1) started)) = log ((ToggleHidden ^^ 1) started) \<and>
   log (ToggleHidden ((ToggleHidden ^^ 2) started)) = log ((ToggleHidden ^^ 2) started) \<and>
   Get TUint64 ''status_hidden'' (data ((ToggleHidden ^^ 1) started)) = (U64 2, True) \<and>
   Get TUint64 ''status_hidden'' (data ((ToggleHidden ^^ 2) started)) = (U64 1, True) \<and>
   Get TUint64 ''status_hidden'' (data ((ToggleHidden ^^ 3) started)) = (U64 2, True)"
proof -
  have h1: "integer_value (Hidden (reg started)) = Some 0"
    by (simp add: started_eq boot_def)
  have h2: "Get TUint64 ''status_hidden'' (data started) = (U64 0, True)"
    by (simp add: started_eq boot_def Get_def)
  have h3: "\<forall>k<3. log (ToggleHidden ((ToggleHidden ^^ k) started)) = log ((ToggleHidden ^^ k) started)"
    by (simp add: less_Suc_eq numeral_3_eq_3 started_eq boot_def ToggleHidden_eq)
  from toggle_sequence_alternates [OF h1 h2 h3] have
    "\<forall>k. 0 < k \<and> k \<le> 3 \<longrightarrow>
       Get TUint64 ''status_hidden'' (data ((ToggleHidden ^^ k) started))
         = (U64 (if ((0::64 word) = statusHidden) = odd k then statusVisible else statusHidden), True)"
    by blast
  from this [rule_format, of 1] this [rule_format, of 2] this [rule_format, of 3]
    h1 h2 h3 [rule_format, of 0] h3 [rule_format, of 1] h3 [rule_format, of 2]
  show ?thesis by (simp add: statusHidden_def statusVisible_def)
qed

text \<open>
  The claim as first stated also promises that two toggles restore an initial value
  outside 1 and 2. From the backing value 0 the two toggles store 2 and then 1.
\<close>

theorem toggle_restore_counterexample:
  "log (ToggleHidden started) = log started \<and>
   log (ToggleHidden (ToggleHidden started)) = log (ToggleHidden started) \<and>
   Get TUint64 ''status_hidden'' (data started) = (U64 0, True) \<and>
   Get TUint64 ''status_hidden'' (data (ToggleHidden started)) = (U64 2, True) \<and>
   Get TUint64 ''status_hidden'' (data (ToggleHidden (ToggleHidden started))) = (U64 1, True) \<and>
   Get TUint64 ''status_hidden'' (data (ToggleHidden (ToggleHidden started)))
     \<noteq> Get TUint64 ''status_hidden'' (data started)"
  by (simp add: started_eq ToggleHidden_eq boot_def Get_def)

text \<open>
  C9. A call of \<open>ToggleHidden\<close> that logs no error has read a value \<open>v\<close>; it writes 1
  when \<open>v\<close> is 2 and 2 for every other \<open>v\<close>, and afterwards the backing value and the
  status entry of the store are both that value, one of 1 and 2.
\<close>

theorem toggle_writes_opposite:
  assumes "log (ToggleHidden s) = log s"
  shows "\<exists>v. integer_value (Hidden (reg s)) = Some v \<and>
           Hidden (reg (ToggleHidden s))
             = Some (DWORD (if v = statusHidden then 1 else 2)) \<and>
           Get TUint64 ''status_hidden'' (data (ToggleHidden s))
             = (U64 (if v = statusHidden then statusVisible else statusHidden), True) \<and>
           integer_value (Hidden (reg (ToggleHidden s))) \<in> {Some statusVisible, Some statusHidden}"
  using toggle_step [OF assms] by (auto simp: Get_def statusHidden_def statusVisible_def)

theorem toggle_writes_opposite_witness:
  "log (ToggleHidden started) = log started \<and>
   integer_value (Hidden (reg started)) = Some 0 \<and>
   Hidden (reg (ToggleHidden started)) = Some (DWORD 2) \<and>
   Get TUint64 ''status_hidden'' (data (ToggleHidden started)) = (U64 2, True)"
proof -
  have h: "log (ToggleHidden started) = log started"
    by (simp add: started_eq boot_def ToggleHidden_eq)
  have v: "integer_value (Hidden (reg started)) = Some 0"
    by (simp add: started_eq boot_def)
  from toggle_writes_opposite [OF h] v h show ?thesis
    by (auto simp: statusHidden_def statusVisible_def)
qed

text \<open>
  C10. When \<open>GetKeyValuePair\<close> is called with \<open>closeKey\<close> false, the key opens and the
  integer value cannot be retrieved, it returns the zero handle and the zero value with
  the error; the handle it opened is not the one it returns and is still open.
\<close>

theorem GetKeyValuePair_read_failure_leaves_key_open:
  assumes "openable (reg s)" and "integer_value (Hidden (reg s)) = None"
  shows "\<exists>key. GetKeyValuePair False s
           = ((0, 0, Some failed_call_to_GetIntegerValue), s\<lparr>open_keys := open_keys s @ [key]\<rparr>) \<and>
         key \<noteq> 0 \<and> key \<notin> set (open_keys s) \<and>
         key \<in> set (open_keys (snd (GetKeyValuePair False s))) \<and>
         fst (fst (GetKeyValuePair False s)) \<noteq> key"
  using assms fresh_notin [of "open_keys s"] fresh_nonzero [of "open_keys s"]
  by (intro exI [of _ "fresh (open_keys s)"]) (auto simp: GetKeyValuePair_False)

theorem GetKeyValuePair_read_failure_leaves_key_open_witness:
  "openable (reg (boot \<lparr>openable = True, Hidden = Some (REG_SZ ''2''), writable = True\<rparr>)) \<and>
   integer_value (Hidden (reg (boot \<lparr>openable = True, Hidden = Some (REG_SZ ''2''), writable = True\<rparr>)))
     = None \<and>
   GetKeyValuePair False (boot \<lparr>openable = True, Hidden = Some (REG_SZ ''2''), writable = True\<rparr>)
     = ((0, 0, Some failed_call_to_GetIntegerValue),
        (boot \<lparr>openable = True, Hidden = Some (REG_SZ ''2''), writable = True\<rparr>)\<lparr>open_keys := [1]\<rparr>)"
proof -
  let ?s = "boot \<lparr>openable = True, Hidden = Some (REG_SZ ''2''), writable = True\<rparr>"
  have h1: "openable (reg ?s)" by (simp add: boot_def)
  have h2: "integer_value (Hidden (reg ?s)) = None" by (simp add: boot_def)
  from GetKeyValuePair_read_failure_leaves_key_open [OF h1 h2] h1 h2 show ?thesis
    by (auto simp: GetKeyValuePair_False boot_def fresh_def)
qed

subsection \<open>Failing toggles\<close>

lemma toggle_failure_keeps_status:
  "log (ToggleHidden s) \<noteq> log s \<Longrightarrow> data (ToggleHidden s) = data s"
  by (auto simp: ToggleHidden_eq split: if_splits option.splits)

lemma toggle_failure_handles:
  "log (ToggleHidden s) \<noteq> log s \<Longrightarrow>
     open_keys (ToggleHidden s) =
       (if openable (reg s) \<and> integer_value (Hidden (reg s)) = None
        then open_keys s @ [fresh (open_keys s)] else open_keys s)"
  by (auto simp: ToggleHidden_eq split: if_splits option.splits)

text \<open>
  C3. A toggle that fails leaves the status entry as it was, and the registry handle it
  opened is released. The first half holds on every failure
  (\<open>toggle_failure_keeps_status\<close>). The second fails when the key opens and the value
  cannot be read: the call returns before the deferred close is registered, and the
  handle that \<open>GetKeyValuePair\<close> opened stays open.
\<close>

theorem toggle_read_failure_leaks_key:
  "log value_deleted = [] \<and>
   log (ToggleHidden value_deleted) = [(ErrorLevel, failed_call_to_GetIntegerValue)] \<and>
   data (ToggleHidden value_deleted) = data value_deleted \<and>
   open_keys value_deleted = [] \<and>
   open_keys (ToggleHidden value_deleted) = [1]"
  by (simp add: value_deleted_def delete_Hidden_def started_eq boot_def ToggleHidden_eq fresh_def)

subsection \<open>Startup\<close>

text \<open>
  C2. When registering the hotkey fails, the error is logged at level Fatal and the
  process exits with code 1 inside \<^verbatim>\<open>log.Fatal\<close>; the call of \<open>msgbox\<close> that follows it
  in the source is never reached, so no goroutine showing the dialog is started.
\<close>

theorem hotkey_registration_failure_exits_before_dialog:
  "exited (onReady name (Some err) mToggle (boot r)) = Some 1 \<and>
   log (onReady name (Some err) mToggle (boot r))
     = [(FatalLevel, Error_registering_global_hotkey err)] \<and>
   goroutines (onReady name (Some err) mToggle (boot r)) = [] \<and>
   MsgBox ''Fatal Error'' (Error_registering_global_hotkey err) 1
     \<notin> set (goroutines (onReady name (Some err) mToggle (boot r)))"
  by (simp add: onReady_def Fatal_def andThen_def boot_def)

subsection \<open>The identity test and the enumeration\<close>

lemma IsFileExplorer_desktop:
  "IsFileExplorer desktop 1" "\<not> IsFileExplorer desktop 2" "\<not> IsFileExplorer desktop 3"
  "\<not> IsFileExplorer desktop 4"
  by code_simp+

lemma IsFileExplorer_iff:
  "IsFileExplorer w hwnd \<longleftrightarrow>
     (\<exists>className pid h exeNameW.
        GetClassName w hwnd = Some className \<and>
        EqualFold w className ''CabinetWClass'' \<and>
        GetWindowThreadProcessId w hwnd = Some pid \<and>
        OpenProcess w pid = Some h \<and>
        QueryFullProcessImageName w h = Some exeNameW \<and>
        EqualFold w (Clean w exeNameW) (Join w (SystemRoot w) ''explorer.exe''))"
  by (auto simp: IsFileExplorer_def Let_def split: option.splits)

lemma EnumWindows_all:
  "EnumWindows w hs (found, s) =
     (if \<exists>h \<in> set hs. IsFileExplorer w h then (if found = 0 then 1 else found) else found,
      fold (PostRefreshMessage w) (filter (IsFileExplorer w) hs) s)"
  by (induction hs arbitrary: found s) (auto simp: enumWindowsProc_def)

text \<open>
  C6. A window passes the identity test exactly when every query on it succeeds, its
  class name equals \<^verbatim>\<open>CabinetWClass\<close> under \<^verbatim>\<open>EqualFold\<close>, and the cleaned image path of its
  process equals \<^verbatim>\<open>SystemRoot\<close> joined with \<^verbatim>\<open>explorer.exe\<close> under \<^verbatim>\<open>EqualFold\<close>. A window
  that does not pass changes nothing, the callback tells the enumeration to continue on
  every window, and the enumeration posts the refresh to exactly the windows that pass.
\<close>

theorem file_explorer_identity_test:
  "(IsFileExplorer w hwnd \<longleftrightarrow>
     (\<exists>className pid h exeNameW.
        GetClassName w hwnd = Some className \<and>
        EqualFold w className ''CabinetWClass'' \<and>
        GetWindowThreadProcessId w hwnd = Some pid \<and>
        OpenProcess w pid = Some h \<and>
        QueryFullProcessImageName w h = Some exeNameW \<and>
        EqualFold w (Clean w exeNameW) (Join w (SystemRoot w) ''explorer.exe''))) \<and>
   (\<not> IsFileExplorer w hwnd \<longrightarrow> enumWindowsProc w hwnd (found, s) = (1, found, s)) \<and>
   fst (enumWindowsProc w hwnd (found, s)) = 1 \<and>
   snd (EnumWindows w hs (found, s))
     = fold (PostRefreshMessage w) (filter (IsFileExplorer w) hs) s"
proof (intro conjI)
  show "IsFileExplorer w hwnd \<longleftrightarrow>
     (\<exists>className pid h exeNameW.
        GetClassName w hwnd = Some className \<and>
        EqualFold w className ''CabinetWClass'' \<and>
        GetWindowThreadProcessId w hwnd = Some pid \<and>
        OpenProcess w pid = Some h \<and>
        QueryFullProcessImageName w h = Some exeNameW \<and>
        EqualFold w (Clean w exeNameW) (Join w (SystemRoot w) ''explorer.exe''))"
    by (rule IsFileExplorer_iff)
  show "\<not> IsFileExplorer w hwnd \<longrightarrow> enumWindowsProc w hwnd (found, s) = (1, found, s)"
    by (simp add: enumWindowsProc_def)
  show "fst (enumWindowsProc w hwnd (found, s)) = 1"
    by (simp add: enumWindowsProc_def)
  show "snd (EnumWindows w hs (found, s))
     = fold (PostRefreshMessage w) (filter (IsFileExplorer w) hs) s"
    by (simp add: EnumWindows_all)
qed

theorem file_explorer_identity_test_witness:
  "IsFileExplorer desktop 1 \<and>
   GetClassName desktop 1 = Some ''CABINETWCLASS'' \<and>
   \<not> IsFileExplorer desktop 2 \<and>
   enumWindowsProc desktop 2 (0, started) = (1, 0, started) \<and>
   \<not> IsFileExplorer desktop 4 \<and>
   GetClassName desktop 4 = None \<and>
   enumWindowsProc desktop 4 (0, started) = (1, 0, started) \<and>
   refreshed (snd (EnumWindows desktop [4, 2, 3, 1] (0, started))) = [1]"
proof -
  have post: "PostRefreshMessage desktop 1 started = started\<lparr>refreshed := refreshed started @ [1]\<rparr>"
    by (simp add: PostRefreshMessage_def desktop_def)
  have r: "refreshed started = []"
    by (simp add: started_eq boot_def)
  have c: "GetClassName desktop 1 = Some ''CABINETWCLASS''" "GetClassName desktop 4 = None"
    by (simp_all add: desktop_def)
  from file_explorer_identity_test [of desktop 2 0 started "[4, 2, 3, 1]"]
    file_explorer_identity_test [of desktop 4 0 started "[4, 2, 3, 1]"]
    IsFileExplorer_desktop post r c
  show ?thesis by (simp del: EnumWindows.simps)
qed

subsection \<open>The loops\<close>















subsection \<open>The window focus event watcher\<close>

lemma message_loop_Exited_iff:
  "fst (message_loop ms hook s) = Exited \<longleftrightarrow>
     (\<exists>r1 err evs w. GetMessage r1 err evs w \<in> set ms \<and> (r1 = 0 \<or> err))"
proof (induction ms arbitrary: s)
  case Nil
  then show ?case by simp
next
  case (Cons m ms)
  then show ?case by (cases m) auto
qed

lemma message_loop_cleanup:
  "message_loop ms hook s = (Exited, s') \<Longrightarrow>
     (hook \<noteq> 0 \<longrightarrow> hook \<notin> set (hooks s')) \<and>
     data s' ''hook_winEvent'' = None \<and> data s' ''threadId_winEvent'' = None"
proof (induction ms arbitrary: s)
  case Nil
  then show ?case by simp
next
  case (Cons m ms)
  then show ?case
    by (cases m) (auto simp: WatchMessageLoop_exit_def Delete_def Let_def split: if_splits)
qed

text \<open>
  C8. The message loop of the watcher ends exactly when a call of \<^verbatim>\<open>GetMessage\<close> returns
  0 (the quit signal) or an error. Whenever it has ended, the hook is no longer
  installed and both entries of the store, the hook handle and the thread id, are
  absent. The quit signal comes from \<open>winEventProc\<close>: on a file-browser window it starts
  the goroutine that posts \<^verbatim>\<open>WM_QUIT\<close> to the recorded thread.
\<close>

theorem watcher_exit_returns_to_idle:
  "(fst (message_loop ms hook s) = Exited \<longleftrightarrow>
      (\<exists>r1 err evs w. GetMessage r1 err evs w \<in> set ms \<and> (r1 = 0 \<or> err))) \<and>
   (fst (message_loop ms hook s) = Exited \<longrightarrow>
      (hook \<noteq> 0 \<longrightarrow> hook \<notin> set (hooks (snd (message_loop ms hook s)))) \<and>
      Get THandle ''hook_winEvent'' (data (snd (message_loop ms hook s))) = (Handle 0, False) \<and>
      Get TUint32 ''threadId_winEvent'' (data (snd (message_loop ms hook s))) = (U32 0, False) \<and>
      data (snd (message_loop ms hook s)) ''hook_winEvent'' = None \<and>
      data (snd (message_loop ms hook s)) ''threadId_winEvent'' = None) \<and>
   (IsFileExplorer w hwnd \<longrightarrow>
      DelayedRefresh hwnd \<in> set (goroutines (winEventProc w hwnd 0 s))) \<and>
   (Get TUint32 ''threadId_winEvent'' (data s) = (U32 tID, True) \<and> tID \<noteq> 0 \<and>
    PostThreadMessage_ok w tID \<longrightarrow>
      quits (winEventProc_go w hwnd s) = quits s @ [tID])"
proof -
  have "(hook \<noteq> 0 \<longrightarrow> hook \<notin> set (hooks (snd (message_loop ms hook s)))) \<and>
      data (snd (message_loop ms hook s)) ''hook_winEvent'' = None \<and>
      data (snd (message_loop ms hook s)) ''threadId_winEvent'' = None"
    if "fst (message_loop ms hook s) = Exited"
    using message_loop_cleanup [of ms hook s "snd (message_loop ms hook s)"] that
    by (metis prod.collapse)
  moreover have "quits (winEventProc_go w hwnd s) = quits s @ [tID]"
    if "Get TUint32 ''threadId_winEvent'' (data s) = (U32 tID, True)" "tID \<noteq> 0"
       "PostThreadMessage_ok w tID"
    using that by (simp add: winEventProc_go_def PostRefreshMessage_def Let_def)
  ultimately show ?thesis
    using message_loop_Exited_iff [of ms hook s]
    by (auto simp: Get_def winEventProc_def)
qed

lemma armed_eq:
  "armed = started\<lparr>hooks := [101],
     data := [''status_hidden'' \<mapsto> U64 0, ''menu_toggle'' \<mapsto> MenuItem 1,
              ''hook_winEvent'' \<mapsto> Handle 101, ''threadId_winEvent'' \<mapsto> U32 7]\<rparr>"
  by (simp add: armed_def started_eq boot_def WatchMessageLoop_arm_def RefreshExplorerWindows_def
      no_windows_def desktop_def Get_def Set_def WatchMessageLoop_def Let_def)

theorem watcher_exit_returns_to_idle_witness:
  "hooks armed = [101] \<and>
   Get THandle ''hook_winEvent'' (data armed) = (Handle 101, True) \<and>
   Get TUint32 ''threadId_winEvent'' (data armed) = (U32 7, True) \<and>
   IsFileExplorer desktop 1 \<and>
   DelayedRefresh 1 \<in> set (goroutines (winEventProc desktop 1 0 armed)) \<and>
   (7::32 word) \<noteq> 0 \<and> PostThreadMessage_ok desktop 7 \<and>
   quits (winEventProc_go desktop 1 armed) = quits armed @ [7] \<and>
   fst (message_loop [GetMessage 1 False [(1, 0)] desktop, GetMessage 0 False [] desktop] 101 armed)
     = Exited \<and>
   (101::nat) \<noteq> 0 \<and>
   101 \<notin> set (hooks (snd (message_loop
       [GetMessage 1 False [(1, 0)] desktop, GetMessage 0 False [] desktop] 101 armed))) \<and>
   Get THandle ''hook_winEvent'' (data (snd (message_loop
       [GetMessage 1 False [(1, 0)] desktop, GetMessage 0 False [] desktop] 101 armed)))
     = (Handle 0, False) \<and>
   Get TUint32 ''threadId_winEvent'' (data (snd (message_loop
       [GetMessage 1 False [(1, 0)] desktop, GetMessage 0 False [] desktop] 101 armed)))
     = (U32 0, False)"
proof -
  let ?ms = "[GetMessage 1 False [(1, 0)] desktop, GetMessage 0 False [] desktop]"
  have ex: "fst (message_loop ?ms 101 armed) = Exited"
    by simp
  have g: "Get TUint32 ''threadId_winEvent'' (data armed) = (U32 7, True)"
    by (simp add: armed_eq Get_def)
  have p: "PostThreadMessage_ok desktop 7"
    by (simp add: desktop_def)
  from watcher_exit_returns_to_idle [of ?ms 101 armed desktop 1 7] ex g p IsFileExplorer_desktop(1)
  show ?thesis by (simp add: armed_eq Get_def)
qed

subsection \<open>Arming the watcher\<close>

lemma refresh_no_windows:
  "RefreshExplorerWindows no_windows s =
     (case Get THandle ''hook_winEvent'' (data s) of
        (Handle hook, ok) \<Rightarrow> if ok \<and> hook \<noteq> 0 then s else WatchMessageLoop s
      | _ \<Rightarrow> WatchMessageLoop s)"
  by (simp add: RefreshExplorerWindows_def no_windows_def desktop_def)

lemma PostRefreshMessage_fold_keeps:
  "data (fold (PostRefreshMessage w) hs s) = data s \<and>
   goroutines (fold (PostRefreshMessage w) hs s) = goroutines s \<and>
   hooks (fold (PostRefreshMessage w) hs s) = hooks s"
  by (induction hs arbitrary: s) (simp_all add: PostRefreshMessage_def)

lemma refresh_while_armed:
  "Get THandle ''hook_winEvent'' (data s) = (Handle hook, True) \<Longrightarrow> hook \<noteq> 0 \<Longrightarrow>
   goroutines (RefreshExplorerWindows w s) = goroutines s \<and>
   hooks (RefreshExplorerWindows w s) = hooks s"
  by (simp add: RefreshExplorerWindows_def EnumWindows_all PostRefreshMessage_fold_keeps
      WatchMessageLoop_def)

text \<open>
  C7. A refresh made while a hook handle other than zero is recorded starts no watcher
  (\<open>refresh_while_armed\<close>). The handle is recorded by the goroutine that
  \<open>WatchMessageLoop\<close> starts, not by the refresh that starts it: two refreshes that
  find no file-browser window, the second made before that goroutine has run, start two
  watchers, and both install a hook.
\<close>

theorem two_changes_arm_two_hooks:
  "fst (WatchRegistryKey_go ''ShowAllFiles'' True True
     [Wake True WAIT_OBJECT_0 set_Visible no_windows,
      Wake True WAIT_OBJECT_0 unchanged no_windows] started) = Running \<and>
   goroutines two_changes = [HotkeyListener, MessageLoopWatcher, MessageLoopWatcher] \<and>
   hooks two_changes = [] \<and>
   hooks (snd (WatchMessageLoop_arm (Some 102) 8
            (snd (WatchMessageLoop_arm (Some 101) 7 two_changes)))) = [101, 102] \<and>
   Get THandle ''hook_winEvent'' (data (snd (WatchMessageLoop_arm (Some 102) 8
            (snd (WatchMessageLoop_arm (Some 101) 7 two_changes))))) = (Handle 102, True)"
  by (simp add: two_changes_def WatchRegistryKey_go_def WAIT_OBJECT_0_def set_Visible_def
      unchanged_def refresh_no_windows started_eq boot_def GetKeyValuePair_False fresh_def
      RefreshSystray_def statusHidden_def Get_def Set_def WatchMessageLoop_def
      WatchMessageLoop_arm_def Let_def)

end
